theory Spec2Isabelle
  imports Complex_Main
begin

section \<open>Calendar tools of the voice assistant: authentication, creation, cancellation\<close>

text \<open>
  The two tools, \<^verbatim>\<open>CreateCalendarEvent\<close> and \<^verbatim>\<open>CancelCalendarEvent\<close>, carry the same
  method \<^verbatim>\<open>authenticate_calendar\<close> (the two copies differ in nothing but the module they
  are in) and one \<^verbatim>\<open>run\<close> method each. Both talk to the outside: the token file, the
  OAuth library and the calendar service. The model makes that explicit:
  \<^item> the files the code reads and writes, and the list of the calls it made to the
    outside, are a record \<open>world\<close> that every function takes and returns;
  \<^item> what the outside answers (a refresh that fails, a flow that times out, the events
    a search returns) is a record \<open>env\<close> of functions, one per call the code makes;
  \<^item> an exception is a value of type \<open>exn\<close>, and a \<^verbatim>\<open>try\<close> block is a function that
    returns \<open>exn + 'a\<close>, whose \<open>Inl\<close> the handlers of the source take apart.
\<close>

subsection \<open>Exceptions, credentials, the world\<close>

text \<open>
  The handlers of the source tell two classes apart: \<^verbatim>\<open>TimeoutError\<close>, and any other
  subclass of \<^verbatim>\<open>Exception\<close>, of which they use \<^verbatim>\<open>str(e)\<close> only.
\<close>

datatype exn = TimeoutError | Exception string

text \<open>
  A credential of the OAuth library, with the three attributes the code reads. The
  library defines \<^verbatim>\<open>valid\<close> as: a token is there and it is not expired.
\<close>

record credentials =
  token :: "string option"
  expired :: bool
  refresh_token :: "string option"

definition valid :: "credentials \<Rightarrow> bool" where
  "valid c \<longleftrightarrow> token c \<noteq> None \<and> \<not> expired c"

text \<open>Python's truth value of a string, and of an attribute that is a string or None.\<close>

definition truthy :: "string \<Rightarrow> bool" where
  "truthy s \<longleftrightarrow> s \<noteq> []"

definition truthy_opt :: "string option \<Rightarrow> bool" where
  "truthy_opt x = (case x of None \<Rightarrow> False | Some s \<Rightarrow> truthy s)"

text \<open>
  What the token file holds: a pickled credential, or bytes that \<^verbatim>\<open>pickle.load\<close>
  refuses with the given message.
\<close>

datatype token_blob = Corrupt string | Pickled credentials

text \<open>
  Times are naive timestamps at a resolution of one second, counted from
  0001-01-01T00:00:00. Where the source puts the ISO rendering of a timestamp into a
  request (\<^verbatim>\<open>isoformat()\<close>), the records below hold the timestamp.
\<close>

type_synonym datetime = int

record reminder =
  reminder_method :: string
  minutes :: int

record event_body =
  summary :: "string option"
  body_description :: string
  start_dateTime :: datetime
  start_timeZone :: string
  end_dateTime :: datetime
  end_timeZone :: string
  reminders_useDefault :: bool
  reminders_overrides :: "reminder list"
  attendees :: "string list"
  sendUpdates :: string

record list_request =
  timeMin :: datetime
  timeMax :: datetime
  q :: "string option"

text \<open>
  Every call that leaves the process, in the order the code makes them. \<open>Attempt k\<close> is
  the log line that opens attempt \<open>k\<close> of the authentication (the source prints
  \<open>k + 1\<close>); it is kept so that attempts can be counted. \<open>Write_token c\<close> is the token
  file opened for writing and \<open>c\<close> pickled into it; \<open>Truncate_token\<close> is the token file
  opened for writing, and so emptied, with a dump that then raised.
\<close>

datatype effect =
    Attempt nat
  | Sleep rat
  | Load_token
  | Refresh credentials
  | Run_flow
  | Truncate_token
  | Write_token credentials
  | Build_service credentials
  | Insert_event event_body
  | List_events list_request
  | Delete_event string

record world =
  token_file :: "token_blob option"
  secrets_file :: bool
  trace :: "effect list"

definition log :: "effect \<Rightarrow> world \<Rightarrow> world" where
  "log e w = w\<lparr>trace := trace w @ [e]\<rparr>"

text \<open>The effects a call added: what the trace holds beyond the trace it started from.\<close>

definition new_effects :: "world \<Rightarrow> world \<Rightarrow> effect list" where
  "new_effects w w' = drop (length (trace w)) (trace w')"

record insert_response =
  response_id :: "string option"
  htmlLink :: "string option"

record remote_event =
  event_id :: string
  start_dateTime_key :: "string option"
  start_date_key :: "string option"

text \<open>
  The configuration the module reads from the environment when it is imported
  (\<^verbatim>\<open>MAX_RETRIES\<close>, \<^verbatim>\<open>RETRY_DELAY\<close> in seconds, \<^verbatim>\<open>GOOGLE_CALENDAR_EMAIL\<close>), and the date
  of that moment, which is the default of the field \<^verbatim>\<open>date\<close>. The field \<open>now_date\<close> of
  \<open>env\<close> below is the date at the moment \<^verbatim>\<open>run\<close> asks for it.
\<close>

record config =
  MAX_RETRIES :: int
  RETRY_DELAY :: rat
  calendar_email :: string
  today :: string

definition default_config :: "string \<Rightarrow> config" where
  "default_config d = \<lparr>MAX_RETRIES = 3, RETRY_DELAY = 1, calendar_email = [], today = d\<rparr>"

text \<open>
  The answers of the outside. The attempt number says which call of the authentication a
  function answers; the position in the list says which delete.
  \<open>strptime\<close> and \<open>fromisoformat\<close> are the functions of Python's \<^verbatim>\<open>datetime\<close>, taken as
  they are: a string (and a format) in, a timestamp or a \<^verbatim>\<open>ValueError\<close> out. Of a
  timestamp with an offset the code reads \<^verbatim>\<open>hour\<close> and \<^verbatim>\<open>minute\<close> only, which are those
  of its wall clock: that reading is what \<open>fromisoformat\<close> gives here.
  Writing the token file has three outcomes: it is written; \<^verbatim>\<open>open(TOKEN_PATH, 'wb')\<close>
  raises, and the file is as it was; or \<^verbatim>\<open>open\<close> has created or emptied the file and
  \<^verbatim>\<open>pickle.dump\<close> raises, which leaves bytes that \<^verbatim>\<open>pickle.load\<close> refuses, with the
  message given.
\<close>

datatype write_outcome = Written | Open_raises exn | Dump_raises exn string

record env =
  refresh :: "nat \<Rightarrow> credentials \<Rightarrow> exn + credentials"
  run_flow :: "nat \<Rightarrow> exn + credentials"
  write_token :: "nat \<Rightarrow> write_outcome"
  build_service :: "exn option"
  strptime :: "string \<Rightarrow> string \<Rightarrow> exn + datetime"
  fromisoformat :: "string \<Rightarrow> exn + datetime"
  insert_event :: "event_body \<Rightarrow> exn + insert_response"
  list_events :: "list_request \<Rightarrow> exn + remote_event list"
  delete_event :: "nat \<Rightarrow> string \<Rightarrow> exn option"
  now_date :: string

subsection \<open>authenticate\_calendar\<close>

type_synonym auth_pair = "credentials option \<times> string option"

text \<open>
  The token file, if it is there, is unpickled; \<^verbatim>\<open>creds\<close> stays None when it is not.
\<close>

definition load_token :: "world \<Rightarrow> (exn + credentials option) \<times> world" where
  "load_token w =
     (case token_file w of
        None \<Rightarrow> (Inr None, w)
      | Some (Corrupt m) \<Rightarrow> (Inl (Exception m), log Load_token w)
      | Some (Pickled c) \<Rightarrow> (Inr (Some c), log Load_token w))"

text \<open>The branch that refreshes: nothing is written to the token file here.\<close>

definition refresh_branch ::
  "env \<Rightarrow> nat \<Rightarrow> credentials \<Rightarrow> world \<Rightarrow> (exn + auth_pair) \<times> world" where
  "refresh_branch en k c w =
     (let w1 = log (Refresh c) (log (Sleep (1/2)) w)
      in case refresh en k c of
           Inl e \<Rightarrow> (Inl e, w1)
         | Inr c' \<Rightarrow> (Inr (Some c', None), w1))"

text \<open>
  The branch of the interactive flow: it returns at once when the client secrets are
  missing, and writes the new credential to the token file when the flow returned one.
  \<open>run_flow\<close> stands for building the flow and running it under its timeout. The
  file is opened for writing before the credential is pickled, so a dump that raises
  leaves a token file that the next attempt cannot load.
\<close>

definition flow_branch :: "env \<Rightarrow> nat \<Rightarrow> world \<Rightarrow> (exn + auth_pair) \<times> world" where
  "flow_branch en k w =
     (if \<not> secrets_file w
      then (Inr (None, Some ''Error: credentials.json file not found.''), w)
      else
        let w1 = log Run_flow (log (Sleep (1/2)) w)
        in case run_flow en k of
             Inl e \<Rightarrow> (Inl e, w1)
           | Inr c \<Rightarrow>
               (case write_token en k of
                  Open_raises e \<Rightarrow> (Inl e, w1)
                | Dump_raises e m \<Rightarrow>
                    (Inl e, log Truncate_token (w1\<lparr>token_file := Some (Corrupt m)\<rparr>))
                | Written \<Rightarrow>
                    (Inr (Some c, None),
                     log (Write_token c) (w1\<lparr>token_file := Some (Pickled c)\<rparr>))))"

text \<open>The body of the \<^verbatim>\<open>try\<close> of one attempt.\<close>

definition auth_attempt :: "env \<Rightarrow> nat \<Rightarrow> world \<Rightarrow> (exn + auth_pair) \<times> world" where
  "auth_attempt en k w =
     (case load_token (log (Sleep (1/2)) (log (Attempt k) w)) of
        (Inl e, w1) \<Rightarrow> (Inl e, w1)
      | (Inr creds, w1) \<Rightarrow>
          (case creds of
             None \<Rightarrow> flow_branch en k w1
           | Some c \<Rightarrow>
               if \<not> valid c
               then (if expired c \<and> truthy_opt (refresh_token c)
                     then refresh_branch en k c w1
                     else flow_branch en k w1)
               else (Inr (Some c, None), w1)))"

text \<open>
  What the method hands back: the pair of a \<^verbatim>\<open>return\<close> statement, or Python's None when
  the loop ends without reaching one.
\<close>

datatype auth_return = Returned auth_pair | Fell_through

text \<open>The loop over \<^verbatim>\<open>range(MAX_RETRIES)\<close>, with the two handlers.\<close>

fun auth_loop :: "config \<Rightarrow> env \<Rightarrow> nat list \<Rightarrow> world \<Rightarrow> auth_return \<times> world" where
  "auth_loop cfg en [] w = (Fell_through, w)"
| "auth_loop cfg en (attempt # rest) w =
     (case auth_attempt en attempt w of
        (Inr r, w1) \<Rightarrow> (Returned r, w1)
      | (Inl TimeoutError, w1) \<Rightarrow>
          if int attempt < MAX_RETRIES cfg - 1
          then auth_loop cfg en rest (log (Sleep (RETRY_DELAY cfg)) w1)
          else (Returned (None, Some ''Authentication timed out after multiple attempts.''), w1)
      | (Inl (Exception m), w1) \<Rightarrow>
          if int attempt < MAX_RETRIES cfg - 1
          then auth_loop cfg en rest (log (Sleep (RETRY_DELAY cfg)) w1)
          else (Returned (None, Some (''Authentication failed: '' @ m)), w1))"

definition authenticate_calendar :: "config \<Rightarrow> env \<Rightarrow> world \<Rightarrow> auth_return \<times> world" where
  "authenticate_calendar cfg en w = auth_loop cfg en [0 ..< nat (MAX_RETRIES cfg)] w"

subsection \<open>Text and time\<close>

text \<open>\<^verbatim>\<open>str\<close> of an integer, and of an attribute that may be None, as an f-string prints them.\<close>

definition digit_char :: "nat \<Rightarrow> char" where
  "digit_char d = ''0123456789'' ! d"

fun str_nat :: "nat \<Rightarrow> string" where
  "str_nat n = (if n < 10 then [digit_char n] else str_nat (n div 10) @ [digit_char (n mod 10)])"

declare str_nat.simps [simp del]

definition str_int :: "int \<Rightarrow> string" where
  "str_int i = (if i < 0 then CHR ''-'' # str_nat (nat (- i)) else str_nat (nat i))"

definition str_opt :: "string option \<Rightarrow> string" where
  "str_opt x = (case x of None \<Rightarrow> ''None'' | Some s \<Rightarrow> s)"

definition quoted :: "string \<Rightarrow> string" where
  "quoted s = [CHR 0x27] @ s @ [CHR 0x27]"

text \<open>
  \<^verbatim>\<open>timedelta(minutes=m)\<close> in seconds; Python refuses a span of more than 999999999 days.
\<close>

definition timedelta_minutes :: "int \<Rightarrow> exn + int" where
  "timedelta_minutes m =
     (let days = (60 * m) div 86400
      in if \<bar>days\<bar> > 999999999
         then Inl (Exception (''days='' @ str_int days @ ''; must have magnitude <= 999999999''))
         else Inr (60 * m))"

text \<open>
  \<^verbatim>\<open>datetime + timedelta\<close>: the sum, unless its day is not one of the days 1 to 3652059
  (the years 1 to 9999), which is an \<^verbatim>\<open>OverflowError\<close>.
\<close>

definition MAXORDINAL :: int where
  "MAXORDINAL = 3652059"

definition add_timedelta :: "datetime \<Rightarrow> int \<Rightarrow> exn + datetime" where
  "add_timedelta t delta =
     (let r = t + delta
      in if 0 \<le> r \<and> r < MAXORDINAL * 86400
         then Inr r
         else Inl (Exception ''date value out of range''))"

definition hour :: "datetime \<Rightarrow> int" where
  "hour t = (t div 3600) mod 24"

definition minute :: "datetime \<Rightarrow> int" where
  "minute t = (t div 60) mod 60"

text \<open>\<^verbatim>\<open>replace(hour=h, minute=m, second=s)\<close>: the same day, at another time.\<close>

definition replace_time :: "datetime \<Rightarrow> int \<Rightarrow> int \<Rightarrow> int \<Rightarrow> datetime" where
  "replace_time t h m s = t - t mod 86400 + 3600 * h + 60 * m + s"

subsection \<open>CreateCalendarEvent\<close>

text \<open>
  The three fields both tools declare, and the two that \<^verbatim>\<open>CreateCalendarEvent\<close> adds.
  \<^verbatim>\<open>title\<close> and \<^verbatim>\<open>time\<close> have the default None.
\<close>

record calendar_fields =
  title :: "string option"
  date :: string
  time :: "string option"

record CreateCalendarEvent = calendar_fields +
  duration_minutes :: int
  description :: string

text \<open>
  What a caller passes to the constructor: a value, or nothing, for each field. The
  constructor fills in the defaults and checks the bounds the field
  \<^verbatim>\<open>duration_minutes\<close> declares (\<^verbatim>\<open>gt=0\<close>, \<^verbatim>\<open>le=480\<close>) on a value that was passed; when
  a bound fails there is no instance, and so nothing whose \<^verbatim>\<open>run\<close> could be called.
\<close>

record create_args =
  arg_title :: "string option"
  arg_date :: "string option"
  arg_time :: "string option"
  arg_duration_minutes :: "int option"
  arg_description :: "string option"

datatype validation_error = Greater_than int | Less_than_equal int

definition check_duration_minutes :: "int \<Rightarrow> validation_error + int" where
  "check_duration_minutes d =
     (if \<not> 0 < d then Inl (Greater_than 0)
      else if \<not> d \<le> 480 then Inl (Less_than_equal 480)
      else Inr d)"

definition new_CreateCalendarEvent ::
  "config \<Rightarrow> create_args \<Rightarrow> validation_error + CreateCalendarEvent" where
  "new_CreateCalendarEvent cfg a =
     (case (case arg_duration_minutes a of
              None \<Rightarrow> Inr 30
            | Some d \<Rightarrow> check_duration_minutes d) of
        Inl e \<Rightarrow> Inl e
      | Inr d \<Rightarrow>
          Inr \<lparr>title = arg_title a,
               date = (case arg_date a of None \<Rightarrow> today cfg | Some s \<Rightarrow> s),
               time = arg_time a,
               duration_minutes = d,
               description = (case arg_description a of None \<Rightarrow> [] | Some s \<Rightarrow> s)\<rparr>)"

text \<open>The dictionary \<^verbatim>\<open>event\<close> that \<^verbatim>\<open>run\<close> builds.\<close>

definition event_record ::
  "config \<Rightarrow> CreateCalendarEvent \<Rightarrow> datetime \<Rightarrow> datetime \<Rightarrow> event_body" where
  "event_record cfg self start_time end_time =
     \<lparr>summary = title self,
      body_description = description self,
      start_dateTime = start_time,
      start_timeZone = ''UTC'',
      end_dateTime = end_time,
      end_timeZone = ''UTC'',
      reminders_useDefault = False,
      reminders_overrides =
        [\<lparr>reminder_method = ''email'', minutes = 30\<rparr>, \<lparr>reminder_method = ''popup'', minutes = 15\<rparr>],
      attendees = [calendar_email cfg],
      sendUpdates = ''all''\<rparr>"

definition scheduled_message :: "CreateCalendarEvent \<Rightarrow> string \<Rightarrow> string option \<Rightarrow> string" where
  "scheduled_message self d html_link =
     ''Meeting '' @ quoted (str_opt (title self)) @ '' scheduled for '' @ d @ '' at ''
       @ str_opt (time self) @ '' (Duration: '' @ str_int (duration_minutes self)
       @ '' minutes)'' @ [CHR 0x0A] @ ''Calendar link: '' @ str_opt html_link"

text \<open>The inner \<^verbatim>\<open>try\<close> of \<^verbatim>\<open>run\<close>: the exception, if one is raised, or the message.\<close>

definition create_api ::
  "config \<Rightarrow> env \<Rightarrow> CreateCalendarEvent \<Rightarrow> string \<Rightarrow> credentials \<Rightarrow> world
     \<Rightarrow> (exn + string) \<times> world" where
  "create_api cfg en self d creds w =
     (let w1 = log (Build_service creds) w
      in (case build_service en of
           Some e \<Rightarrow> (Inl e, w1)
         | None \<Rightarrow>
       (case strptime en (d @ '' '' @ str_opt (time self)) ''%Y-%m-%d %H:%M'' of
           Inl e \<Rightarrow> (Inl e, w1)
         | Inr start_time \<Rightarrow>
       (case timedelta_minutes (duration_minutes self) of
           Inl e \<Rightarrow> (Inl e, w1)
         | Inr delta \<Rightarrow>
       (case add_timedelta start_time delta of
           Inl e \<Rightarrow> (Inl e, w1)
         | Inr end_time \<Rightarrow>
             (let event = event_record cfg self start_time end_time;
                  w2 = log (Insert_event event) w1
              in (case insert_event en event of
                   Inl e \<Rightarrow> (Inl e, w2)
                 | Inr result \<Rightarrow>
                     (Inr (scheduled_message self d (htmlLink result)), w2))))))))"

text \<open>The date both \<^verbatim>\<open>run\<close> methods work with: the field, or today's date when it is empty.\<close>

definition effective_date :: "env \<Rightarrow> string \<Rightarrow> string" where
  "effective_date en d = (if truthy d then d else now_date en)"

text \<open>
  \<^verbatim>\<open>CreateCalendarEvent.run\<close>. Unpacking the None of an authentication that fell through
  its loop is a \<^verbatim>\<open>TypeError\<close>, which the outer handler turns into a message.
\<close>

definition run_create :: "config \<Rightarrow> env \<Rightarrow> CreateCalendarEvent \<Rightarrow> world \<Rightarrow> string \<times> world" where
  "run_create cfg en self w =
     (let d = effective_date en (date self)
      in case authenticate_calendar cfg en w of
           (Fell_through, w1) \<Rightarrow>
             (''Error creating calendar event: cannot unpack non-iterable NoneType object'', w1)
         | (Returned (creds, error), w1) \<Rightarrow>
             (case (if truthy_opt error then error else None) of
                Some m \<Rightarrow> (m, w1)
              | None \<Rightarrow>
                  (case creds of
                     None \<Rightarrow> (''Failed to authenticate with Google Calendar.'', w1)
                   | Some c \<Rightarrow>
                       (case create_api cfg en self d c w1 of
                          (Inr m, w2) \<Rightarrow> (m, w2)
                        | (Inl TimeoutError, w2) \<Rightarrow>
                            (''Calendar API request timed out. Please try again.'', w2)
                        | (Inl (Exception m), w2) \<Rightarrow>
                            (''Error creating calendar event: '' @ m, w2)))))"

text \<open>Constructing the tool from the caller's arguments and running it.\<close>

definition create_and_run ::
  "config \<Rightarrow> env \<Rightarrow> create_args \<Rightarrow> world \<Rightarrow> (validation_error + string) \<times> world" where
  "create_and_run cfg en a w =
     (case new_CreateCalendarEvent cfg a of
        Inl e \<Rightarrow> (Inl e, w)
      | Inr self \<Rightarrow> (case run_create cfg en self w of (m, w1) \<Rightarrow> (Inr m, w1)))"

subsection \<open>CancelCalendarEvent\<close>

text \<open>
  \<^verbatim>\<open>event['start'].get('dateTime', event['start'].get('date'))\<close>, and the replacement of
  every \<^verbatim>\<open>Z\<close> by \<^verbatim>\<open>+00:00\<close> before the string is parsed.
\<close>

definition event_start :: "remote_event \<Rightarrow> string option" where
  "event_start e = (case start_dateTime_key e of Some s \<Rightarrow> Some s | None \<Rightarrow> start_date_key e)"

definition replace_Z :: "string \<Rightarrow> string" where
  "replace_Z s = concat (map (\<lambda>c. if c = CHR ''Z'' then ''+00:00'' else [c]) s)"

text \<open>
  The loop that keeps the events whose start has the hour and the minute asked for. An
  event without a start, or with one that does not parse, ends the loop with an exception.
\<close>

fun filter_by_time :: "env \<Rightarrow> datetime \<Rightarrow> remote_event list \<Rightarrow> exn + remote_event list" where
  "filter_by_time en target_time [] = Inr []"
| "filter_by_time en target_time (event # events) =
     (case event_start event of
        None \<Rightarrow> Inl (Exception (quoted ''NoneType'' @ '' object has no attribute '' @ quoted ''replace''))
      | Some start \<Rightarrow>
          (case fromisoformat en (replace_Z start) of
             Inl e \<Rightarrow> Inl e
           | Inr event_time \<Rightarrow>
               (case filter_by_time en target_time events of
                  Inl e \<Rightarrow> Inl e
                | Inr matching_events \<Rightarrow>
                    Inr (if hour event_time = hour target_time
                            \<and> minute event_time = minute target_time
                         then event # matching_events
                         else matching_events))))"

text \<open>
  The loop that deletes: every event is tried, a delete that raises is passed over, and
  the ones that went through are counted.
\<close>

fun delete_loop ::
  "env \<Rightarrow> nat \<Rightarrow> remote_event list \<Rightarrow> nat \<Rightarrow> world \<Rightarrow> nat \<times> world" where
  "delete_loop en i [] deleted_count w = (deleted_count, w)"
| "delete_loop en i (event # events) deleted_count w =
     (let w1 = log (Delete_event (event_id event)) w
      in case delete_event en i (event_id event) of
           None \<Rightarrow> delete_loop en (Suc i) events (deleted_count + 1) w1
         | Some e \<Rightarrow> delete_loop en (Suc i) events deleted_count w1)"

definition cancelled_message :: "string option \<Rightarrow> string \<Rightarrow> nat \<Rightarrow> string" where
  "cancelled_message t d deleted_count =
     (if deleted_count = 1
      then ''Successfully cancelled the meeting '' @ quoted (str_opt t) @ '' on '' @ d
      else if deleted_count > 1
      then ''Successfully cancelled '' @ str_nat deleted_count @ '' occurrences of ''
             @ quoted (str_opt t) @ '' on '' @ d
      else ''Failed to cancel any events'')"

definition none_found_message :: "string option \<Rightarrow> string \<Rightarrow> string" where
  "none_found_message t d = ''No events found matching '' @ quoted (str_opt t) @ '' on '' @ d"

definition none_at_time_message :: "string option \<Rightarrow> string option \<Rightarrow> string \<Rightarrow> string" where
  "none_at_time_message t tm d =
     ''No events found matching '' @ quoted (str_opt t) @ '' at '' @ str_opt tm @ '' on '' @ d"

text \<open>The events left after the filter by time, which runs only when a time was given.\<close>

definition matching_events ::
  "env \<Rightarrow> calendar_fields \<Rightarrow> string \<Rightarrow> remote_event list \<Rightarrow> exn + remote_event list" where
  "matching_events en self d events =
     (if truthy_opt (time self)
      then (case strptime en (d @ '' '' @ str_opt (time self)) ''%Y-%m-%d %H:%M'' of
              Inl e \<Rightarrow> Inl e
            | Inr target_time \<Rightarrow> filter_by_time en target_time events)
      else Inr events)"

text \<open>The inner \<^verbatim>\<open>try\<close> of \<^verbatim>\<open>CancelCalendarEvent.run\<close>.\<close>

definition cancel_api ::
  "env \<Rightarrow> calendar_fields \<Rightarrow> string \<Rightarrow> credentials \<Rightarrow> world \<Rightarrow> (exn + string) \<times> world" where
  "cancel_api en self d creds w =
     (let w1 = log (Build_service creds) w
      in (case build_service en of
           Some e \<Rightarrow> (Inl e, w1)
         | None \<Rightarrow>
       (case strptime en d ''%Y-%m-%d'' of
           Inl e \<Rightarrow> (Inl e, w1)
         | Inr date_obj \<Rightarrow>
             (let request = \<lparr>timeMin = replace_time date_obj 0 0 0,
                             timeMax = replace_time date_obj 23 59 59,
                             q = title self\<rparr>;
                  w2 = log (List_events request) w1
              in (case list_events en request of
                   Inl e \<Rightarrow> (Inl e, w2)
                 | Inr events \<Rightarrow>
                     (if events = [] then (Inr (none_found_message (title self) d), w2)
                      else
                        (case matching_events en self d events of
                           Inl e \<Rightarrow> (Inl e, w2)
                         | Inr matching \<Rightarrow>
                             (if matching = []
                              then (Inr (none_at_time_message (title self) (time self) d), w2)
                              else
                                (case delete_loop en 0 matching 0 w2 of
                                   (deleted_count, w3) \<Rightarrow>
                                     (Inr (cancelled_message (title self) d deleted_count),
                                      w3))))))))))"

definition run_cancel :: "config \<Rightarrow> env \<Rightarrow> calendar_fields \<Rightarrow> world \<Rightarrow> string \<times> world" where
  "run_cancel cfg en self w =
     (let d = effective_date en (date self)
      in case authenticate_calendar cfg en w of
           (Fell_through, w1) \<Rightarrow>
             (''Error cancelling calendar event: cannot unpack non-iterable NoneType object'', w1)
         | (Returned (creds, error), w1) \<Rightarrow>
             (case (if truthy_opt error then error else None) of
                Some m \<Rightarrow> (m, w1)
              | None \<Rightarrow>
                  (case creds of
                     None \<Rightarrow> (''Failed to authenticate with Google Calendar.'', w1)
                   | Some c \<Rightarrow>
                       (case cancel_api en self d c w1 of
                          (Inr m, w2) \<Rightarrow> (m, w2)
                        | (Inl TimeoutError, w2) \<Rightarrow>
                            (''Calendar API request timed out. Please try again.'', w2)
                        | (Inl (Exception m), w2) \<Rightarrow>
                            (''Error cancelling calendar event: '' @ m, w2)))))"

subsection \<open>Reading the trace\<close>

text \<open>
  The effects of one attempt; a list of lists joined by a separator; the numbers of the
  attempts a trace holds; and the effects that are calls to the calendar service.
\<close>

definition attempt_effects :: "env \<Rightarrow> nat \<Rightarrow> world \<Rightarrow> effect list" where
  "attempt_effects en k w = new_effects w (snd (auth_attempt en k w))"

text \<open>
  The world attempt \<open>k\<close> starts in when every attempt before it was retried: the world
  the call started in for the first, and for the next the world the attempt left, after
  the sleep of the retry delay.
\<close>

fun world_before :: "config \<Rightarrow> env \<Rightarrow> world \<Rightarrow> nat \<Rightarrow> world" where
  "world_before cfg en w 0 = w"
| "world_before cfg en w (Suc k) =
     log (Sleep (RETRY_DELAY cfg)) (snd (auth_attempt en k (world_before cfg en w k)))"

fun joined :: "'a list \<Rightarrow> 'a list list \<Rightarrow> 'a list" where
  "joined sep [] = []"
| "joined sep [x] = x"
| "joined sep (x # y # ys) = x @ sep @ joined sep (y # ys)"

fun attempts_of :: "effect list \<Rightarrow> nat list" where
  "attempts_of [] = []"
| "attempts_of (Attempt k # es) = k # attempts_of es"
| "attempts_of (e # es) = attempts_of es"

fun api_call :: "effect \<Rightarrow> bool" where
  "api_call (Build_service c) = True"
| "api_call (Insert_event b) = True"
| "api_call (List_events r) = True"
| "api_call (Delete_event i) = True"
| "api_call e = False"

subsection \<open>Reading a number back\<close>

text \<open>The value of a digit and of a string of digits, to tell apart what \<open>str_nat\<close> prints.\<close>

definition digit_val :: "char \<Rightarrow> nat" where
  "digit_val c = of_char c - 48"

definition nat_of_str :: "string \<Rightarrow> nat" where
  "nat_of_str s = foldl (\<lambda>a c. 10 * a + digit_val c) 0 s"

subsection \<open>A sample configuration, for the concrete runs below\<close>

text \<open>
  A token file with a valid or an expired credential, a flow that times out, a calendar
  with two events on 2024-05-01, and the two strings the runs below parse.
\<close>

definition stored_valid :: credentials where
  "stored_valid = \<lparr>token = Some ''ya29.a'', expired = False, refresh_token = Some ''1//r''\<rparr>"

definition stored_expired :: credentials where
  "stored_expired = \<lparr>token = Some ''ya29.a'', expired = True, refresh_token = Some ''1//r''\<rparr>"

definition refreshed :: credentials where
  "refreshed = \<lparr>token = Some ''ya29.b'', expired = False, refresh_token = Some ''1//r''\<rparr>"

definition sample_events :: "remote_event list" where
  "sample_events =
     [\<lparr>event_id = ''ev1'', start_dateTime_key = Some ''2024-05-01T09:00:00Z'', start_date_key = None\<rparr>,
      \<lparr>event_id = ''ev2'', start_dateTime_key = Some ''2024-05-01T16:00:00Z'', start_date_key = None\<rparr>]"

definition sample_env :: env where
  "sample_env =
     \<lparr>refresh = (\<lambda>k c. Inr refreshed),
      run_flow = (\<lambda>k. Inl TimeoutError),
      write_token = (\<lambda>k. Written),
      build_service = None,
      strptime = (\<lambda>s f.
        if s = ''2024-05-01 14:30'' \<and> f = ''%Y-%m-%d %H:%M'' then Inr 63850170600
        else if s = ''2024-05-01'' \<and> f = ''%Y-%m-%d'' then Inr 63850118400
        else Inl (Exception ''time data does not match format'')),
      fromisoformat = (\<lambda>s.
        if s = ''2024-05-01T09:00:00+00:00'' then Inr 63850150800
        else if s = ''2024-05-01T16:00:00+00:00'' then Inr 63850176000
        else Inl (Exception ''Invalid isoformat string'')),
      insert_event = (\<lambda>b. Inr \<lparr>response_id = Some ''ev9'', htmlLink = Some ''https://calendar.example/ev9''\<rparr>),
      list_events = (\<lambda>r. Inr sample_events),
      delete_event = (\<lambda>i e. None),
      now_date = ''2024-05-01''\<rparr>"

definition sample_world :: "token_blob option \<Rightarrow> world" where
  "sample_world tf = \<lparr>token_file = tf, secrets_file = True, trace = []\<rparr>"

definition sample_config :: "int \<Rightarrow> config" where
  "sample_config n = (default_config ''2024-05-01'')\<lparr>MAX_RETRIES := n\<rparr>"

text \<open>
  A request for a meeting of 45 minutes at 14:30, the instance and the event it leads to;
  a query for the same title; a calendar with no event; and a calendar whose first delete
  times out.
\<close>

definition sample_args :: "int option \<Rightarrow> create_args" where
  "sample_args d =
     \<lparr>arg_title = Some ''Standup'', arg_date = Some ''2024-05-01'', arg_time = Some ''14:30'',
      arg_duration_minutes = d, arg_description = None\<rparr>"

definition sample_tool :: CreateCalendarEvent where
  "sample_tool =
     \<lparr>title = Some ''Standup'', date = ''2024-05-01'', time = Some ''14:30'',
      duration_minutes = 45, description = []\<rparr>"

definition sample_event :: event_body where
  "sample_event = event_record (default_config ''2024-05-01'') sample_tool 63850170600 63850173300"

definition sample_query :: "string option \<Rightarrow> calendar_fields" where
  "sample_query tm = \<lparr>title = Some ''Standup'', date = ''2024-05-01'', time = tm\<rparr>"

definition sample_request :: list_request where
  "sample_request = \<lparr>timeMin = 63850118400, timeMax = 63850204799, q = Some ''Standup''\<rparr>"

definition empty_calendar_env :: env where
  "empty_calendar_env = sample_env\<lparr>list_events := (\<lambda>r. Inr [])\<rparr>"

definition flaky_env :: env where
  "flaky_env = sample_env\<lparr>delete_event := (\<lambda>i e. if i = 0 then Some TimeoutError else None)\<rparr>"

section \<open>Properties of the authentication\<close>

lemmas auth_defs = auth_attempt_def load_token_def refresh_branch_def flow_branch_def log_def Let_def

lemma auth_attempt_trace:
  "trace (snd (auth_attempt en k w)) = trace w @ attempt_effects en k w"
  by (simp add: attempt_effects_def new_effects_def auth_defs
      split: option.split token_blob.split sum.split write_outcome.split)

lemma attempts_of_append: "attempts_of (xs @ ys) = attempts_of xs @ attempts_of ys"
  by (induction xs rule: attempts_of.induct) simp_all

lemma attempts_of_attempt: "attempts_of (attempt_effects en k w) = [k]"
  by (simp add: attempt_effects_def new_effects_def auth_defs split: option.split token_blob.split sum.split write_outcome.split)

lemma attempts_of_joined:
  "attempts_of (joined [Sleep d] (map (\<lambda>k. attempt_effects en k (f k)) ks)) = ks"
  by (induction ks rule: induct_list012) (simp_all add: attempts_of_append attempts_of_attempt)

lemma joined_Cons: "ys \<noteq> [] \<Longrightarrow> joined sep (x # ys) = x @ sep @ joined sep ys"
  by (cases ys) simp_all

lemma timeouts_loop:
  assumes all: "\<And>k. k < n \<Longrightarrow>
      fst (auth_attempt en k (world_before cfg en w k)) = Inl TimeoutError"
    and n: "n = nat (MAX_RETRIES cfg)"
  shows "i < n \<Longrightarrow>
     fst (auth_loop cfg en [i ..< n] (world_before cfg en w i)) =
       Returned (None, Some ''Authentication timed out after multiple attempts.'')
     \<and> trace (snd (auth_loop cfg en [i ..< n] (world_before cfg en w i))) =
         trace (world_before cfg en w i)
           @ joined [Sleep (RETRY_DELAY cfg)]
               (map (\<lambda>k. attempt_effects en k (world_before cfg en w k)) [i ..< n])"
proof (induction "n - i" arbitrary: i)
  case 0
  then show ?case by simp
next
  case (Suc m)
  let ?w = "world_before cfg en w i"
  obtain r w1 where a: "auth_attempt en i ?w = (r, w1)" by (cases "auth_attempt en i ?w")
  have r: "r = Inl TimeoutError" using all [OF Suc.prems] a by simp
  have tr: "trace w1 = trace ?w @ attempt_effects en i ?w"
    using auth_attempt_trace [of en i ?w] a by simp
  have nxt: "world_before cfg en w (Suc i) = log (Sleep (RETRY_DELAY cfg)) w1"
    using a by simp
  have upt: "[i ..< n] = i # [Suc i ..< n]" using Suc.prems by (simp add: upt_conv_Cons)
  show ?case
  proof (cases "Suc i < n")
    case True
    have lt: "int i < MAX_RETRIES cfg - 1" using True n by linarith
    have IH: "fst (auth_loop cfg en [Suc i ..< n] (world_before cfg en w (Suc i))) =
          Returned (None, Some ''Authentication timed out after multiple attempts.'')
        \<and> trace (snd (auth_loop cfg en [Suc i ..< n] (world_before cfg en w (Suc i)))) =
          trace (world_before cfg en w (Suc i))
            @ joined [Sleep (RETRY_DELAY cfg)]
                (map (\<lambda>k. attempt_effects en k (world_before cfg en w k)) [Suc i ..< n])"
      using Suc.hyps(1) [of "Suc i"] Suc.hyps(2) True by simp
    have step: "auth_loop cfg en [i ..< n] ?w =
        auth_loop cfg en [Suc i ..< n] (world_before cfg en w (Suc i))"
      using a r lt by (simp add: upt del: world_before.simps add: nxt)
    have more: "map (\<lambda>k. attempt_effects en k (world_before cfg en w k)) [Suc i ..< n] \<noteq> []"
      using True by simp
    have tr2: "trace (world_before cfg en w (Suc i)) =
        trace ?w @ attempt_effects en i ?w @ [Sleep (RETRY_DELAY cfg)]"
      by (simp only: nxt) (simp add: log_def tr)
    have j: "joined [Sleep (RETRY_DELAY cfg)]
          (map (\<lambda>k. attempt_effects en k (world_before cfg en w k)) [i ..< n]) =
        attempt_effects en i ?w @ [Sleep (RETRY_DELAY cfg)]
          @ joined [Sleep (RETRY_DELAY cfg)]
              (map (\<lambda>k. attempt_effects en k (world_before cfg en w k)) [Suc i ..< n])"
      by (subst upt) (simp only: list.map joined_Cons [OF more])
    show ?thesis
      by (simp only: step IH j tr2) simp
  next
    case False
    then have last: "[Suc i ..< n] = []" by simp
    have ge: "\<not> int i < MAX_RETRIES cfg - 1" using False Suc.prems n by linarith
    show ?thesis using a r ge tr by (simp add: upt last del: world_before.simps)
  qed
qed

lemma new_effects_append: "trace w' = trace w @ es \<Longrightarrow> new_effects w w' = es"
  by (simp add: new_effects_def)

lemma attempt_effects_no_api: "\<forall>e \<in> set (attempt_effects en k w). \<not> api_call e"
  by (simp add: attempt_effects_def new_effects_def auth_defs split: option.split token_blob.split sum.split write_outcome.split)

lemma auth_loop_trace:
  "\<exists>es. trace (snd (auth_loop cfg en ks w)) = trace w @ es \<and> (\<forall>e \<in> set es. \<not> api_call e)"
proof (induction ks arbitrary: w)
  case Nil
  then show ?case by simp
next
  case (Cons k ks)
  obtain r w1 where a: "auth_attempt en k w = (r, w1)" by (cases "auth_attempt en k w")
  have tr: "trace w1 = trace w @ attempt_effects en k w"
    using auth_attempt_trace [of en k w] a by simp
  note na = attempt_effects_no_api [of en k w]
  obtain es where es: "trace (snd (auth_loop cfg en ks (log (Sleep (RETRY_DELAY cfg)) w1)))
      = trace (log (Sleep (RETRY_DELAY cfg)) w1) @ es" "\<forall>e \<in> set es. \<not> api_call e"
    using Cons.IH by blast
  show ?case
  proof (cases r)
    case (Inr p)
    then show ?thesis using a tr na by simp
  next
    case (Inl x)
    show ?thesis
    proof (cases "int k < MAX_RETRIES cfg - 1")
      case True
      have "auth_loop cfg en (k # ks) w = auth_loop cfg en ks (log (Sleep (RETRY_DELAY cfg)) w1)"
        using a Inl True by (cases x) simp_all
      then show ?thesis using es tr na by (auto simp add: log_def)
    next
      case False
      then show ?thesis using a Inl tr na by (cases x) simp_all
    qed
  qed
qed

lemma authenticate_calendar_trace:
  "trace (snd (authenticate_calendar cfg en w)) =
     trace w @ new_effects w (snd (authenticate_calendar cfg en w))"
  using auth_loop_trace [of cfg en "[0 ..< nat (MAX_RETRIES cfg)]" w]
  by (auto simp add: authenticate_calendar_def new_effects_def)

lemma authenticate_calendar_no_api:
  "\<forall>e \<in> set (new_effects w (snd (authenticate_calendar cfg en w))). \<not> api_call e"
  using auth_loop_trace [of cfg en "[0 ..< nat (MAX_RETRIES cfg)]" w]
  by (auto simp add: authenticate_calendar_def new_effects_def)

lemma valid_token_attempt:
  "token_file w = Some (Pickled c) \<Longrightarrow> valid c \<Longrightarrow>
   auth_attempt en k w =
     (Inr (Some c, None), w\<lparr>trace := trace w @ [Attempt k, Sleep (1/2), Load_token]\<rparr>)"
  by (simp add: auth_defs)

lemma valid_token_returns:
  assumes "0 < MAX_RETRIES cfg" "token_file w = Some (Pickled c)" "valid c"
  shows "authenticate_calendar cfg en w =
     (Returned (Some c, None), w\<lparr>trace := trace w @ [Attempt 0, Sleep (1/2), Load_token]\<rparr>)"
proof -
  have "[0 ..< nat (MAX_RETRIES cfg)] = 0 # [Suc 0 ..< nat (MAX_RETRIES cfg)]"
    using assms(1) by (simp add: upt_conv_Cons)
  then show ?thesis
    using valid_token_attempt [OF assms(2,3), of en 0] by (simp add: authenticate_calendar_def)
qed

lemma expired_token_attempt:
  "token_file w = Some (Pickled c) \<Longrightarrow> expired c \<Longrightarrow> truthy_opt (refresh_token c) \<Longrightarrow>
   auth_attempt en k w =
     (case refresh en k c of
        Inl e \<Rightarrow> Inl e
      | Inr c' \<Rightarrow> Inr (Some c', None),
      w\<lparr>trace := trace w @ [Attempt k, Sleep (1/2), Load_token, Sleep (1/2), Refresh c]\<rparr>)"
  by (simp add: auth_defs valid_def split: sum.split)

lemma expired_token_loop:
  assumes c: "expired c" "truthy_opt (refresh_token c)"
  shows "token_file w = Some (Pickled c) \<Longrightarrow>
    \<exists>es. trace (snd (auth_loop cfg en ks w)) = trace w @ es \<and> Run_flow \<notin> set es
       \<and> (\<forall>c'. Write_token c' \<notin> set es)
       \<and> (ks \<noteq> [] \<longrightarrow> Refresh c \<in> set es)
       \<and> token_file (snd (auth_loop cfg en ks w)) = token_file w"
proof (induction ks arbitrary: w)
  case Nil
  then show ?case by simp
next
  case (Cons k ks)
  let ?w1 = "w\<lparr>trace := trace w @ [Attempt k, Sleep (1/2), Load_token, Sleep (1/2), Refresh c]\<rparr>"
  let ?w2 = "log (Sleep (RETRY_DELAY cfg)) ?w1"
  note a = expired_token_attempt [OF Cons.prems c, of en k]
  have "token_file ?w2 = Some (Pickled c)" using Cons.prems by (simp add: log_def)
  from Cons.IH [OF this] obtain es where
    es: "trace (snd (auth_loop cfg en ks ?w2)) = trace ?w2 @ es" "Run_flow \<notin> set es"
      "\<forall>c'. Write_token c' \<notin> set es"
      "token_file (snd (auth_loop cfg en ks ?w2)) = token_file ?w2"
    by blast
  show ?case
  proof (cases "refresh en k c")
    case (Inr c')
    then show ?thesis using a by simp
  next
    case (Inl x)
    show ?thesis
    proof (cases "int k < MAX_RETRIES cfg - 1")
      case True
      have "auth_loop cfg en (k # ks) w = auth_loop cfg en ks ?w2"
        using a Inl True by (cases x) simp_all
      then show ?thesis using es by (simp add: log_def)
    next
      case False
      then show ?thesis using a Inl by (cases x) simp_all
    qed
  qed
qed

lemma failed_dump_leaves_corrupt_file:
  "secrets_file w \<Longrightarrow> run_flow en k = Inr c \<Longrightarrow> write_token en k = Dump_raises e m \<Longrightarrow>
     fst (flow_branch en k w) = Inl e
     \<and> token_file (snd (flow_branch en k w)) = Some (Corrupt m)
     \<and> fst (load_token (snd (flow_branch en k w))) = Inl (Exception m)"
  by (simp add: flow_branch_def load_token_def log_def Let_def)

lemma flow_credential_persisted:
  "flow_branch en k w = (Inr (Some c, None), w1) \<Longrightarrow>
     token_file w1 = Some (Pickled c) \<and> Write_token c \<in> set (trace w1)"
  by (auto simp add: flow_branch_def log_def Let_def
      split: if_splits sum.splits write_outcome.splits)

lemma auth_attempt_pair:
  "auth_attempt en k w = (Inr (creds, error), w1) \<Longrightarrow>
     (\<exists>c. creds = Some c \<and> error = None) \<or> (\<exists>m. creds = None \<and> error = Some m \<and> m \<noteq> [])"
  by (auto simp add: auth_defs split: option.splits token_blob.splits sum.splits write_outcome.splits if_splits)

lemma auth_loop_pair:
  assumes n: "n = nat (MAX_RETRIES cfg)"
  shows "i < n \<Longrightarrow>
     (\<exists>c. fst (auth_loop cfg en [i ..< n] w) = Returned (Some c, None))
   \<or> (\<exists>m. fst (auth_loop cfg en [i ..< n] w) = Returned (None, Some m) \<and> m \<noteq> [])"
proof (induction "n - i" arbitrary: i w)
  case 0
  then show ?case by simp
next
  case (Suc d)
  have upt: "[i ..< n] = i # [Suc i ..< n]" using Suc.prems by (simp add: upt_conv_Cons)
  obtain r w1 where a: "auth_attempt en i w = (r, w1)" by (cases "auth_attempt en i w")
  show ?case
  proof (cases r)
    case (Inr p)
    obtain creds error where p: "p = (creds, error)" by (cases p)
    show ?thesis using auth_attempt_pair [of en i w creds error w1] a Inr p
      by (auto simp add: upt)
  next
    case (Inl x)
    show ?thesis
    proof (cases "Suc i < n")
      case True
      then have lt: "int i < MAX_RETRIES cfg - 1" using n by linarith
      have "auth_loop cfg en [i ..< n] w = auth_loop cfg en [Suc i ..< n] (log (Sleep (RETRY_DELAY cfg)) w1)"
        using a Inl lt by (cases x) (simp_all add: upt)
      then show ?thesis using Suc.hyps(1) [of "Suc i"] Suc.hyps(2) True by simp
    next
      case False
      then have ge: "\<not> int i < MAX_RETRIES cfg - 1" using Suc.prems n by linarith
      show ?thesis using a Inl ge by (cases x) (simp_all add: upt)
    qed
  qed
qed

lemmas sample_defs = stored_valid_def stored_expired_def refreshed_def sample_env_def
  sample_world_def sample_config_def default_config_def

lemma upt_3: "[0 ..< 3] = [0, 1, 2::nat]"
  by (simp add: upt_rec)

lemma authenticate_calendar_pair:
  assumes "0 < MAX_RETRIES cfg"
  shows "(\<exists>c. fst (authenticate_calendar cfg en w) = Returned (Some c, None))
       \<or> (\<exists>m. fst (authenticate_calendar cfg en w) = Returned (None, Some m) \<and> m \<noteq> [])"
  using auth_loop_pair [of "nat (MAX_RETRIES cfg)" cfg 0 en w] assms
  by (simp add: authenticate_calendar_def)

section \<open>The claims about the authentication\<close>

text \<open>
  Claim C2: whenever \<^verbatim>\<open>authenticate_calendar\<close> ends with a credential and no error, be the
  credential new from the interactive flow or the result of refreshing an expired stored
  one, it has written that credential to the token file.

  The code writes the token file in the branch of the interactive flow only. On the
  sample below the stored credential is expired and has a refresh token, the refresh
  answers with a new credential, and the method returns it with no error: the token file
  still holds the expired credential, and the trace has no write.
\<close>

theorem refresh_not_persisted:
  "authenticate_calendar (default_config ''2024-05-01'') sample_env
      (sample_world (Some (Pickled stored_expired))) =
     (Returned (Some refreshed, None),
      \<lparr>token_file = Some (Pickled stored_expired), secrets_file = True,
       trace = [Attempt 0, Sleep (1/2), Load_token, Sleep (1/2), Refresh stored_expired]\<rparr>)"
  by (simp add: authenticate_calendar_def upt_3 auth_defs sample_defs valid_def truthy_opt_def truthy_def)

text \<open>
  Claim C4: if every attempt of the authentication fails with a timeout,
  \<^verbatim>\<open>authenticate_calendar\<close> makes exactly the configured number of attempts, sleeps the
  retry delay between two consecutive attempts, and then returns no credential with the
  terminal timeout message. (Attempts that fail are attempts that run: the configured
  number is at least one.)

  In the model: every attempt, in the world the attempts before it left, ends in a
  \<^verbatim>\<open>TimeoutError\<close>. Then the result is no credential with the message
  ``Authentication timed out after multiple attempts.''; what the call did is the effects
  of the attempts \<open>0, \<dots>, MAX_RETRIES - 1\<close> in this order, with one sleep of the retry
  delay between two consecutive attempts, none before the first and none after the
  last; and the attempts it opened are exactly these.
\<close>

theorem timeouts_exhaust_retries:
  assumes "0 < MAX_RETRIES cfg"
    and "\<forall>k. int k < MAX_RETRIES cfg \<longrightarrow>
           fst (auth_attempt en k (world_before cfg en w k)) = Inl TimeoutError"
  shows "fst (authenticate_calendar cfg en w) =
           Returned (None, Some ''Authentication timed out after multiple attempts.'')
       \<and> new_effects w (snd (authenticate_calendar cfg en w)) =
           joined [Sleep (RETRY_DELAY cfg)]
             (map (\<lambda>k. attempt_effects en k (world_before cfg en w k))
                [0 ..< nat (MAX_RETRIES cfg)])
       \<and> attempts_of (new_effects w (snd (authenticate_calendar cfg en w))) =
           [0 ..< nat (MAX_RETRIES cfg)]"
proof -
  let ?n = "nat (MAX_RETRIES cfg)"
  have all: "\<And>k. k < ?n \<Longrightarrow>
      fst (auth_attempt en k (world_before cfg en w k)) = Inl TimeoutError"
    using assms(2) by simp
  have pos: "0 < ?n" using assms(1) by simp
  have loop: "fst (auth_loop cfg en [0 ..< ?n] w) =
        Returned (None, Some ''Authentication timed out after multiple attempts.'')
      \<and> trace (snd (auth_loop cfg en [0 ..< ?n] w)) =
        trace w @ joined [Sleep (RETRY_DELAY cfg)]
          (map (\<lambda>k. attempt_effects en k (world_before cfg en w k)) [0 ..< ?n])"
    using timeouts_loop [of ?n en cfg w 0, OF all refl pos] by simp
  then have eff: "new_effects w (snd (authenticate_calendar cfg en w)) =
      joined [Sleep (RETRY_DELAY cfg)]
        (map (\<lambda>k. attempt_effects en k (world_before cfg en w k)) [0 ..< ?n])"
    by (simp add: authenticate_calendar_def new_effects_append)
  have att: "attempts_of (new_effects w (snd (authenticate_calendar cfg en w))) = [0 ..< ?n]"
    by (simp only: eff attempts_of_joined)
  show ?thesis
    using loop eff att by (simp add: authenticate_calendar_def)
qed

theorem timeouts_exhaust_retries_witness:
  "0 < MAX_RETRIES (default_config ''2024-05-01'')
   \<and> (\<forall>k. fst (auth_attempt sample_env k
            (world_before (default_config ''2024-05-01'') sample_env (sample_world None) k)) =
          Inl TimeoutError)
   \<and> fst (authenticate_calendar (default_config ''2024-05-01'') sample_env (sample_world None)) =
       Returned (None, Some ''Authentication timed out after multiple attempts.'')
   \<and> new_effects (sample_world None)
        (snd (authenticate_calendar (default_config ''2024-05-01'') sample_env (sample_world None))) =
       [Attempt 0, Sleep (1/2), Sleep (1/2), Run_flow, Sleep 1,
        Attempt 1, Sleep (1/2), Sleep (1/2), Run_flow, Sleep 1,
        Attempt 2, Sleep (1/2), Sleep (1/2), Run_flow]
   \<and> attempts_of (new_effects (sample_world None)
        (snd (authenticate_calendar (default_config ''2024-05-01'') sample_env (sample_world None)))) =
       [0, 1, 2]"
proof -
  let ?cfg = "default_config ''2024-05-01''"
  let ?W = "world_before ?cfg sample_env (sample_world None)"
  have files: "token_file (?W k) = None \<and> secrets_file (?W k)" for k
    by (induction k) (simp_all add: auth_defs sample_defs split: option.split)
  have out: "fst (auth_attempt sample_env k (?W k)) = Inl TimeoutError" for k
    using files [of k] by (simp add: auth_defs sample_env_def)
  have e: "attempt_effects sample_env k (?W k) =
      [Attempt k, Sleep (1/2), Sleep (1/2), Run_flow]" for k
    using files [of k] by (simp add: attempt_effects_def new_effects_def auth_defs sample_env_def)
  have h1: "0 < MAX_RETRIES ?cfg"
    by (simp add: default_config_def)
  have h2: "\<forall>k. int k < MAX_RETRIES ?cfg \<longrightarrow>
      fst (auth_attempt sample_env k (?W k)) = Inl TimeoutError"
    using out by simp
  have h3: "\<forall>k. fst (auth_attempt sample_env k (?W k)) = Inl TimeoutError"
    using out by simp
  have n: "[0 ..< nat (MAX_RETRIES ?cfg)] = [0, 1, 2]"
    by (simp add: default_config_def upt_3)
  have d: "RETRY_DELAY ?cfg = 1"
    by (simp add: default_config_def)
  note t = timeouts_exhaust_retries [OF h1 h2]
  show ?thesis
    using h1 h3 t by (simp only: n d) (simp add: e del: world_before.simps)
qed

text \<open>
  Claim C5: for every configuration, any retry count from 0 on included,
  \<^verbatim>\<open>authenticate_calendar\<close> returns a credential with no error or no credential with an
  error message, and nothing else.

  With the retry count 0 the loop has no iteration and the method ends without a
  \<^verbatim>\<open>return\<close>, whatever the files and the outside are: its result is None, which is no
  pair, and \<^verbatim>\<open>run\<close>, which unpacks a pair, reports the \<^verbatim>\<open>TypeError\<close>. (Lemma
  \<open>authenticate_calendar_pair\<close> above is what holds from the count 1 on.)
\<close>

theorem no_attempts_no_pair:
  "authenticate_calendar (cfg\<lparr>MAX_RETRIES := 0\<rparr>) en w = (Fell_through, w)
   \<and> run_create (cfg\<lparr>MAX_RETRIES := 0\<rparr>) en self w =
       (''Error creating calendar event: cannot unpack non-iterable NoneType object'', w)"
  by (simp add: authenticate_calendar_def run_create_def)

text \<open>
  Claim C6: if the token file exists and the credential loaded from it is valid,
  \<^verbatim>\<open>authenticate_calendar\<close> returns that credential, and the interactive flow is not
  started. (A credential is loaded when an attempt runs: the configured number of
  attempts is at least one.)
\<close>

theorem valid_token_no_flow:
  assumes "0 < MAX_RETRIES cfg" and "token_file w = Some (Pickled c)" and "valid c"
  shows "fst (authenticate_calendar cfg en w) = Returned (Some c, None)
       \<and> Run_flow \<notin> set (new_effects w (snd (authenticate_calendar cfg en w)))"
  by (simp add: valid_token_returns [OF assms] new_effects_def)

theorem valid_token_no_flow_witness:
  "0 < MAX_RETRIES (default_config ''2024-05-01'')
   \<and> token_file (sample_world (Some (Pickled stored_valid))) = Some (Pickled stored_valid)
   \<and> valid stored_valid
   \<and> fst (authenticate_calendar (default_config ''2024-05-01'') sample_env
            (sample_world (Some (Pickled stored_valid)))) = Returned (Some stored_valid, None)
   \<and> Run_flow \<notin> set (new_effects (sample_world (Some (Pickled stored_valid)))
        (snd (authenticate_calendar (default_config ''2024-05-01'') sample_env
            (sample_world (Some (Pickled stored_valid))))))"
proof -
  have h1: "0 < MAX_RETRIES (default_config ''2024-05-01'')"
    by (simp add: default_config_def)
  have h2: "token_file (sample_world (Some (Pickled stored_valid))) = Some (Pickled stored_valid)"
    by (simp add: sample_world_def)
  have h3: "valid stored_valid"
    by (simp add: valid_def stored_valid_def)
  show ?thesis
    using h1 h2 h3 valid_token_no_flow [OF h1 h2 h3, of sample_env] by simp
qed

text \<open>
  Claim C7: if the credential loaded from the token file is expired and has a refresh
  token, \<^verbatim>\<open>authenticate_calendar\<close> calls \<^verbatim>\<open>refresh\<close> on that credential and does not
  start the interactive flow, in any of its attempts. (As for C6, an attempt runs.)
\<close>

theorem expired_token_refreshed:
  assumes "0 < MAX_RETRIES cfg" and "token_file w = Some (Pickled c)"
    and "expired c" and "truthy_opt (refresh_token c)"
  shows "Refresh c \<in> set (new_effects w (snd (authenticate_calendar cfg en w)))
       \<and> Run_flow \<notin> set (new_effects w (snd (authenticate_calendar cfg en w)))"
proof -
  have ne: "[0 ..< nat (MAX_RETRIES cfg)] \<noteq> []" using assms(1) by simp
  obtain es where "trace (snd (auth_loop cfg en [0 ..< nat (MAX_RETRIES cfg)] w)) = trace w @ es"
    "Run_flow \<notin> set es" "Refresh c \<in> set es"
    using expired_token_loop [OF assms(3,4,2), of cfg en "[0 ..< nat (MAX_RETRIES cfg)]"] ne
    by blast
  then show ?thesis
    by (simp add: authenticate_calendar_def new_effects_append)
qed

theorem expired_token_refreshed_witness:
  "0 < MAX_RETRIES (default_config ''2024-05-01'')
   \<and> token_file (sample_world (Some (Pickled stored_expired))) = Some (Pickled stored_expired)
   \<and> expired stored_expired \<and> truthy_opt (refresh_token stored_expired)
   \<and> Refresh stored_expired \<in> set (new_effects (sample_world (Some (Pickled stored_expired)))
        (snd (authenticate_calendar (default_config ''2024-05-01'') sample_env
            (sample_world (Some (Pickled stored_expired))))))
   \<and> Run_flow \<notin> set (new_effects (sample_world (Some (Pickled stored_expired)))
        (snd (authenticate_calendar (default_config ''2024-05-01'') sample_env
            (sample_world (Some (Pickled stored_expired))))))"
proof -
  have h1: "0 < MAX_RETRIES (default_config ''2024-05-01'')"
    by (simp add: default_config_def)
  have h2: "token_file (sample_world (Some (Pickled stored_expired))) = Some (Pickled stored_expired)"
    by (simp add: sample_world_def)
  have h3: "expired stored_expired"
    by (simp add: stored_expired_def)
  have h4: "truthy_opt (refresh_token stored_expired)"
    by (simp add: stored_expired_def truthy_opt_def truthy_def)
  show ?thesis
    using h1 h2 h3 h4 expired_token_refreshed [OF h1 h2 h3 h4, of sample_env] by simp
qed

text \<open>
  Claim C10: if the token file exists and the credential loaded from it is valid,
  \<^verbatim>\<open>authenticate_calendar\<close> returns that credential with no error, does not open the
  token file for writing, and the token file holds what it held. (As for C6, an attempt
  runs.)
\<close>

theorem valid_token_not_rewritten:
  assumes "0 < MAX_RETRIES cfg" and "token_file w = Some (Pickled c)" and "valid c"
  shows "fst (authenticate_calendar cfg en w) = Returned (Some c, None)
       \<and> token_file (snd (authenticate_calendar cfg en w)) = token_file w
       \<and> (\<forall>c'. Write_token c' \<notin> set (new_effects w (snd (authenticate_calendar cfg en w))))
       \<and> Truncate_token \<notin> set (new_effects w (snd (authenticate_calendar cfg en w)))"
  by (simp add: valid_token_returns [OF assms] new_effects_def)

theorem valid_token_not_rewritten_witness:
  "0 < MAX_RETRIES (sample_config 1)
   \<and> token_file (sample_world (Some (Pickled stored_valid))) = Some (Pickled stored_valid)
   \<and> valid stored_valid
   \<and> fst (authenticate_calendar (sample_config 1) sample_env
            (sample_world (Some (Pickled stored_valid)))) = Returned (Some stored_valid, None)
   \<and> token_file (snd (authenticate_calendar (sample_config 1) sample_env
            (sample_world (Some (Pickled stored_valid))))) = Some (Pickled stored_valid)
   \<and> (\<forall>c'. Write_token c' \<notin> set (new_effects (sample_world (Some (Pickled stored_valid)))
        (snd (authenticate_calendar (sample_config 1) sample_env
            (sample_world (Some (Pickled stored_valid)))))))
   \<and> Truncate_token \<notin> set (new_effects (sample_world (Some (Pickled stored_valid)))
        (snd (authenticate_calendar (sample_config 1) sample_env
            (sample_world (Some (Pickled stored_valid))))))"
proof -
  have h1: "0 < MAX_RETRIES (sample_config 1)"
    by (simp add: sample_config_def)
  have h2: "token_file (sample_world (Some (Pickled stored_valid))) = Some (Pickled stored_valid)"
    by (simp add: sample_world_def)
  have h3: "valid stored_valid"
    by (simp add: valid_def stored_valid_def)
  show ?thesis
    using h1 h2 h3 valid_token_not_rewritten [OF h1 h2 h3, of sample_env] by simp
qed

section \<open>Properties of the creation\<close>

lemma create_api_effects:
  "(\<exists>es. trace (snd (create_api cfg en self d c w)) = trace w @ Build_service c # es
      \<and> (es = [] \<or> (\<exists>st. strptime en (d @ '' '' @ str_opt (time self)) ''%Y-%m-%d %H:%M'' = Inr st
              \<and> es = [Insert_event (event_record cfg self st (st + 60 * duration_minutes self))])))"
  by (auto simp add: create_api_def log_def Let_def timedelta_minutes_def add_timedelta_def
      split: option.split sum.split if_splits)

lemma run_create_inserts:
  assumes "Insert_event ev \<in> set (new_effects w (snd (run_create cfg en self w)))"
  shows "\<exists>st. strptime en (effective_date en (date self) @ '' '' @ str_opt (time self))
                   ''%Y-%m-%d %H:%M'' = Inr st
             \<and> ev = event_record cfg self st (st + 60 * duration_minutes self)"
proof -
  let ?d = "effective_date en (date self)"
  obtain r w1 where a: "authenticate_calendar cfg en w = (r, w1)"
    by (cases "authenticate_calendar cfg en w")
  have tr1: "trace w1 = trace w @ new_effects w w1"
    using authenticate_calendar_trace [of cfg en w] a by simp
  have na: "\<forall>e \<in> set (new_effects w w1). \<not> api_call e"
    using authenticate_calendar_no_api [of w cfg en] a by simp
  then have no_ins: "Insert_event ev \<notin> set (new_effects w w1)" by auto
  have auth_only: "snd (run_create cfg en self w) = w1 \<Longrightarrow> False"
    using assms no_ins by simp
  show ?thesis
  proof (cases r)
    case Fell_through
    then show ?thesis using a auth_only by (simp add: run_create_def)
  next
    case (Returned p)
    obtain creds error where p: "p = (creds, error)" by (cases p)
    show ?thesis
    proof (cases "truthy_opt error")
      case True
      then obtain m where "error = Some m" by (cases error) (simp_all add: truthy_opt_def)
      then show ?thesis using a Returned p True auth_only by (simp add: run_create_def)
    next
      case False
      show ?thesis
      proof (cases creds)
        case None
        then show ?thesis using a Returned p False auth_only by (simp add: run_create_def)
      next
        case (Some c)
        have run: "snd (run_create cfg en self w) = snd (create_api cfg en self ?d c w1)"
          using a Returned p False Some
          by (simp add: run_create_def split: prod.split sum.split exn.split)
        obtain es where es: "trace (snd (create_api cfg en self ?d c w1)) = trace w1 @ Build_service c # es"
          "es = [] \<or> (\<exists>st. strptime en (?d @ '' '' @ str_opt (time self)) ''%Y-%m-%d %H:%M'' = Inr st
              \<and> es = [Insert_event (event_record cfg self st (st + 60 * duration_minutes self))])"
          using create_api_effects [of cfg en self ?d c w1] by blast
        have "trace (snd (run_create cfg en self w)) = trace w @ new_effects w w1 @ Build_service c # es"
          using run es(1) tr1 by simp
        then have "new_effects w (snd (run_create cfg en self w)) = new_effects w w1 @ Build_service c # es"
          by (simp add: new_effects_append)
        with assms no_ins have "Insert_event ev \<in> set es" by simp
        with es(2) show ?thesis by auto
      qed
    qed
  qed
qed

lemma sample_new_tool:
  "new_CreateCalendarEvent (default_config ''2024-05-01'') (sample_args (Some 45)) = Inr sample_tool"
  by (simp add: new_CreateCalendarEvent_def sample_args_def sample_tool_def check_duration_minutes_def)

lemma sample_authenticated:
  "authenticate_calendar (default_config ''2024-05-01'') en
      (sample_world (Some (Pickled stored_valid))) =
     (Returned (Some stored_valid, None),
      \<lparr>token_file = Some (Pickled stored_valid), secrets_file = True,
       trace = [Attempt 0, Sleep (1/2), Load_token]\<rparr>)"
proof -
  have "0 < MAX_RETRIES (default_config ''2024-05-01'')" by (simp add: default_config_def)
  moreover have "token_file (sample_world (Some (Pickled stored_valid))) = Some (Pickled stored_valid)"
    by (simp add: sample_world_def)
  moreover have "valid stored_valid" by (simp add: valid_def stored_valid_def)
  ultimately show ?thesis
    using valid_token_returns [of "default_config ''2024-05-01''"
        "sample_world (Some (Pickled stored_valid))" stored_valid en]
    by (simp add: sample_world_def)
qed

lemma sample_run_create:
  "run_create (default_config ''2024-05-01'') sample_env sample_tool
      (sample_world (Some (Pickled stored_valid))) =
     (''Meeting 'Standup' scheduled for 2024-05-01 at 14:30 (Duration: 45 minutes)''
        @ [CHR 0x0A] @ ''Calendar link: https://calendar.example/ev9'',
      \<lparr>token_file = Some (Pickled stored_valid), secrets_file = True,
       trace = [Attempt 0, Sleep (1/2), Load_token, Build_service stored_valid,
                Insert_event sample_event]\<rparr>)"
proof -
  have str: "str_int 45 = ''45''"
    by (simp add: str_int_def str_nat.simps [of 45] str_nat.simps [of 4] digit_char_def)
  have tool: "title sample_tool = Some ''Standup''" "date sample_tool = ''2024-05-01''"
    "time sample_tool = Some ''14:30''" "duration_minutes sample_tool = 45"
    by (simp_all add: sample_tool_def)
  have env: "build_service sample_env = None"
    "strptime sample_env ''2024-05-01 14:30'' ''%Y-%m-%d %H:%M'' = Inr 63850170600"
    "insert_event sample_env sample_event =
       Inr \<lparr>response_id = Some ''ev9'', htmlLink = Some ''https://calendar.example/ev9''\<rparr>"
    by (simp_all add: sample_env_def)
  have api: "create_api (default_config ''2024-05-01'') sample_env sample_tool ''2024-05-01''
       stored_valid \<lparr>token_file = Some (Pickled stored_valid), secrets_file = True,
       trace = [Attempt 0, Sleep (1/2), Load_token]\<rparr> =
     (Inr (scheduled_message sample_tool ''2024-05-01'' (Some ''https://calendar.example/ev9'')),
      \<lparr>token_file = Some (Pickled stored_valid), secrets_file = True,
       trace = [Attempt 0, Sleep (1/2), Load_token, Build_service stored_valid,
                Insert_event sample_event]\<rparr>)"
    by (simp add: create_api_def tool env str_opt_def timedelta_minutes_def add_timedelta_def
        MAXORDINAL_def log_def sample_event_def [symmetric])
  have msg: "scheduled_message sample_tool ''2024-05-01'' (Some ''https://calendar.example/ev9'') =
     ''Meeting 'Standup' scheduled for 2024-05-01 at 14:30 (Duration: 45 minutes)''
        @ [CHR 0x0A] @ ''Calendar link: https://calendar.example/ev9''"
    by (simp add: scheduled_message_def tool str str_opt_def quoted_def)
  show ?thesis
    by (simp add: run_create_def sample_authenticated effective_date_def truthy_def
        truthy_opt_def tool api msg)
qed

section \<open>The claims about the creation\<close>

text \<open>
  Claim C1: for every valid request (title, date, time as HH:MM, duration in minutes) the
  end time that \<^verbatim>\<open>CreateCalendarEvent.run\<close> computes is the start time, which is the date
  and the time parsed together, plus the duration in minutes; and a request whose duration
  is not between 1 and 480 minutes is refused when the tool is constructed, before
  anything is called.

  In the model: an instance exists only with a duration from 1 to 480; whatever event its
  \<^verbatim>\<open>run\<close> submits starts at the time \<open>strptime\<close> read and ends \<open>60 * duration_minutes\<close>
  seconds later (when that is past the year 9999 the addition raises and no event is
  submitted); and with a duration below 1 or above 480 the result is a validation error
  and the world is the one the call started from.
\<close>

theorem end_time_and_duration_bound:
  "(\<forall>self ev.
       new_CreateCalendarEvent cfg a = Inr self
       \<and> Insert_event ev \<in> set (new_effects w (snd (run_create cfg en self w)))
     \<longrightarrow> 0 < duration_minutes self \<and> duration_minutes self \<le> 480
         \<and> strptime en (effective_date en (date self) @ '' '' @ str_opt (time self))
              ''%Y-%m-%d %H:%M'' = Inr (start_dateTime ev)
         \<and> end_dateTime ev = start_dateTime ev + 60 * duration_minutes self)
   \<and> (\<forall>m. arg_duration_minutes a = Some m \<and> (m < 1 \<or> 480 < m)
     \<longrightarrow> (\<exists>v. create_and_run cfg en a w = (Inl v, w)))"
proof (intro conjI allI impI)
  fix self ev
  assume h: "new_CreateCalendarEvent cfg a = Inr self
       \<and> Insert_event ev \<in> set (new_effects w (snd (run_create cfg en self w)))"
  from h show "0 < duration_minutes self"
    by (auto simp add: new_CreateCalendarEvent_def check_duration_minutes_def
        split: option.splits if_splits)
  from h show "duration_minutes self \<le> 480"
    by (auto simp add: new_CreateCalendarEvent_def check_duration_minutes_def
        split: option.splits if_splits)
  from h obtain st where st:
    "strptime en (effective_date en (date self) @ '' '' @ str_opt (time self))
       ''%Y-%m-%d %H:%M'' = Inr st"
    "ev = event_record cfg self st (st + 60 * duration_minutes self)"
    using run_create_inserts [of ev w cfg en self] by blast
  from st show "strptime en (effective_date en (date self) @ '' '' @ str_opt (time self))
       ''%Y-%m-%d %H:%M'' = Inr (start_dateTime ev)"
    by (simp add: event_record_def)
  from st show "end_dateTime ev = start_dateTime ev + 60 * duration_minutes self"
    by (simp add: event_record_def)
next
  fix m
  assume "arg_duration_minutes a = Some m \<and> (m < 1 \<or> 480 < m)"
  then show "\<exists>v. create_and_run cfg en a w = (Inl v, w)"
    by (auto simp add: create_and_run_def new_CreateCalendarEvent_def check_duration_minutes_def)
qed

theorem end_time_and_duration_bound_witness:
  "new_CreateCalendarEvent (default_config ''2024-05-01'') (sample_args (Some 45)) = Inr sample_tool
   \<and> Insert_event sample_event \<in> set (new_effects (sample_world (Some (Pickled stored_valid)))
        (snd (run_create (default_config ''2024-05-01'') sample_env sample_tool
               (sample_world (Some (Pickled stored_valid))))))
   \<and> duration_minutes sample_tool = 45
   \<and> start_dateTime sample_event = 63850170600
   \<and> end_dateTime sample_event = start_dateTime sample_event + 60 * duration_minutes sample_tool
   \<and> arg_duration_minutes (sample_args (Some 481)) = Some 481
   \<and> (\<exists>v. create_and_run (default_config ''2024-05-01'') sample_env (sample_args (Some 481))
            (sample_world (Some (Pickled stored_valid))) =
          (Inl v, sample_world (Some (Pickled stored_valid))))
   \<and> arg_duration_minutes (sample_args (Some 0)) = Some 0
   \<and> (\<exists>v. create_and_run (default_config ''2024-05-01'') sample_env (sample_args (Some 0))
            (sample_world (Some (Pickled stored_valid))) =
          (Inl v, sample_world (Some (Pickled stored_valid))))"
proof -
  let ?cfg = "default_config ''2024-05-01''"
  let ?w = "sample_world (Some (Pickled stored_valid))"
  have ins: "Insert_event sample_event \<in> set (new_effects ?w
        (snd (run_create ?cfg sample_env sample_tool ?w)))"
    unfolding sample_run_create new_effects_def by (simp add: sample_world_def)
  have d: "duration_minutes sample_tool = 45" by (simp add: sample_tool_def)
  have st: "start_dateTime sample_event = 63850170600"
    by (simp add: sample_event_def event_record_def)
  have big: "arg_duration_minutes (sample_args (Some 481)) = Some 481 \<and> ((481::int) < 1 \<or> (480::int) < 481)"
    by (simp add: sample_args_def)
  have small: "arg_duration_minutes (sample_args (Some 0)) = Some 0 \<and> ((0::int) < 1 \<or> (480::int) < 0)"
    by (simp add: sample_args_def)
  note t1 = end_time_and_duration_bound [of ?cfg "sample_args (Some 45)" ?w sample_env,
      THEN conjunct1, rule_format, OF conjI, OF sample_new_tool ins]
  note t2 = end_time_and_duration_bound [of ?cfg "sample_args (Some 481)" ?w sample_env,
      THEN conjunct2, rule_format, OF big]
  note t3 = end_time_and_duration_bound [of ?cfg "sample_args (Some 0)" ?w sample_env,
      THEN conjunct2, rule_format, OF small]
  show ?thesis
    using sample_new_tool ins d st t1 t2 t3 big small by simp
qed



section \<open>Properties of the cancellation\<close>

lemma below_ten: "d < 10 \<Longrightarrow> d \<in> {0, 1, 2, 3, 4, 5, 6, 7, 8, 9::nat}"
  by auto

lemma digit_val_digit_char: "d < 10 \<Longrightarrow> digit_val (digit_char d) = d"
  using below_ten [of d] by (auto simp add: digit_val_def digit_char_def)

lemma digit_char_is_digit: "d < 10 \<Longrightarrow> digit_char d \<in> set ''0123456789''"
  using below_ten [of d] by (auto simp add: digit_char_def)

lemma nat_of_str_snoc: "nat_of_str (s @ [c]) = 10 * nat_of_str s + digit_val c"
  by (simp add: nat_of_str_def)

lemma nat_of_str_str_nat: "nat_of_str (str_nat n) = n"
proof (induction n rule: str_nat.induct)
  case (1 n)
  show ?case
  proof (cases "n < 10")
    case True
    then show ?thesis
      by (simp add: str_nat.simps [of n] nat_of_str_def digit_val_digit_char)
  next
    case False
    then show ?thesis
      using "1.IH" by (simp add: str_nat.simps [of n] nat_of_str_snoc digit_val_digit_char)
  qed
qed

lemma str_nat_inj: "str_nat k = str_nat n \<Longrightarrow> k = n"
  by (metis nat_of_str_str_nat)

lemma str_nat_digits: "set (str_nat n) \<subseteq> set ''0123456789''"
proof (induction n rule: str_nat.induct)
  case (1 n)
  show ?case
  proof (cases "n < 10")
    case True
    then show ?thesis
      using digit_char_is_digit [of n] by (simp add: str_nat.simps [of n])
  next
    case False
    then show ?thesis
      using "1.IH" digit_char_is_digit [of "n mod 10"] by (simp add: str_nat.simps [of n])
  qed
qed

lemma str_nat_not_Nil: "str_nat n \<noteq> []"
  by (simp add: str_nat.simps [of n])

lemma str_nat_head: "\<exists>c cs. str_nat n = c # cs \<and> c \<noteq> CHR ''t''"
proof -
  obtain c cs where s: "str_nat n = c # cs"
    using str_nat_not_Nil [of n] by (cases "str_nat n") simp_all
  then have "c \<in> set ''0123456789''" using str_nat_digits [of n] by auto
  then have "c \<noteq> CHR ''t''" by auto
  with s show ?thesis by blast
qed

lemma cancelled_message_inj:
  "cancelled_message t d k = cancelled_message t d n \<Longrightarrow> k = n"
proof -
  assume eq: "cancelled_message t d k = cancelled_message t d n"
  have one_many: False
    if "''Successfully cancelled the meeting '' @ x = ''Successfully cancelled '' @ str_nat m @ y"
    for x y m
  proof -
    obtain c cs where "str_nat m = c # cs" "c \<noteq> CHR ''t''" using str_nat_head [of m] by blast
    with that show False by simp
  qed
  consider "k = 0" | "k = 1" | "1 < k" by linarith
  then show ?thesis
  proof cases
    case 1
    then show ?thesis using eq by (auto simp add: cancelled_message_def split: if_splits)
  next
    case 2
    then show ?thesis using eq one_many
      by (auto simp add: cancelled_message_def split: if_splits)
  next
    case 3
    then show ?thesis using eq one_many [of _ k] str_nat_inj [of k n]
      by (auto simp add: cancelled_message_def split: if_splits)
  qed
qed

lemma delete_loop_result:
  "delete_loop en i events n w =
     (n + length (filter (\<lambda>(j, e). delete_event en j (event_id e) = None) (enumerate i events)),
      w\<lparr>trace := trace w @ map (\<lambda>e. Delete_event (event_id e)) events\<rparr>)"
  by (induction events arbitrary: i n w) (simp_all add: log_def Let_def split: option.split)

lemma matching_events_Nil: "matching_events en self d [] = Inr m \<Longrightarrow> m = []"
  by (auto simp add: matching_events_def split: if_splits sum.splits)

lemma filter_by_time_none:
  assumes "\<forall>e \<in> set events. \<exists>s t. event_start e = Some s
      \<and> fromisoformat en (replace_Z s) = Inr t
      \<and> \<not> (hour t = hour target_time \<and> minute t = minute target_time)"
  shows "filter_by_time en target_time events = Inr []"
  using assms by (induction events) auto

lemma cancel_api_found:
  assumes "build_service en = None"
    and "strptime en d ''%Y-%m-%d'' = Inr date_obj"
    and "list_events en \<lparr>timeMin = replace_time date_obj 0 0 0,
            timeMax = replace_time date_obj 23 59 59, q = title self\<rparr> = Inr events"
    and "events \<noteq> [] \<Longrightarrow> matching_events en self d events = Inr matching"
  shows "cancel_api en self d c w =
     (if events = [] then Inr (none_found_message (title self) d)
      else if matching = [] then Inr (none_at_time_message (title self) (time self) d)
      else Inr (cancelled_message (title self) d
             (length (filter (\<lambda>(j, e). delete_event en j (event_id e) = None)
                (enumerate 0 matching)))),
      w\<lparr>trace := trace w @ [Build_service c,
           List_events \<lparr>timeMin = replace_time date_obj 0 0 0,
             timeMax = replace_time date_obj 23 59 59, q = title self\<rparr>]
           @ (if events = [] then [] else map (\<lambda>e. Delete_event (event_id e)) matching)\<rparr>)"
  using assms by (simp add: cancel_api_def Let_def log_def delete_loop_result)

lemma run_cancel_authenticated:
  assumes "authenticate_calendar cfg en w = (Returned (Some c, None), w1)"
    and "cancel_api en self (effective_date en (date self)) c w1 = (Inr m, w2)"
  shows "run_cancel cfg en self w = (m, w2)"
  using assms by (simp add: run_cancel_def truthy_opt_def)

lemma sample_day:
  "effective_date en (date (sample_query tm)) = ''2024-05-01''"
  "title (sample_query tm) = Some ''Standup''"
  "time (sample_query tm) = tm"
  by (simp_all add: effective_date_def sample_query_def truthy_def)

lemma sample_window:
  "replace_time 63850118400 0 0 0 = 63850118400"
  "replace_time 63850118400 23 59 59 = 63850204799"
  by (simp_all add: replace_time_def)

lemma sample_env_answers:
  "build_service sample_env = None"
  "strptime sample_env ''2024-05-01'' ''%Y-%m-%d'' = Inr 63850118400"
  "strptime sample_env ''2024-05-01 14:30'' ''%Y-%m-%d %H:%M'' = Inr 63850170600"
  "list_events sample_env r = Inr sample_events"
  "delete_event sample_env i e = None"
  by (simp_all add: sample_env_def)

lemma flaky_env_answers:
  "build_service flaky_env = None"
  "strptime flaky_env ''2024-05-01'' ''%Y-%m-%d'' = Inr 63850118400"
  "list_events flaky_env r = Inr sample_events"
  "delete_event flaky_env i e = (if i = 0 then Some TimeoutError else None)"
  by (simp_all add: flaky_env_def sample_env_def)

lemma empty_calendar_env_answers:
  "build_service empty_calendar_env = None"
  "strptime empty_calendar_env ''2024-05-01'' ''%Y-%m-%d'' = Inr 63850118400"
  "strptime empty_calendar_env ''2024-05-01 14:30'' ''%Y-%m-%d %H:%M'' = Inr 63850170600"
  "list_events empty_calendar_env r = Inr []"
  by (simp_all add: empty_calendar_env_def sample_env_def)

lemma sample_no_filter:
  "matching_events en (sample_query None) d events = Inr events"
  by (simp add: matching_events_def sample_query_def truthy_opt_def)

section \<open>The claims about the cancellation\<close>

text \<open>
  Claim C3: in a cancellation, a delete that fails is passed over and the matches after it
  are still tried, and the message returned tells how many events were deleted; in
  particular, with no time given and exactly two events found, both deletes succeeding,
  both are deleted and the message says 2.

  In the model, once the authentication returned a credential and the search returned
  the events of which \<open>matching\<close> are left: the trace has one delete for every one of
  them, in their order, whatever the deletes answer; the message is the one of the
  number of deletes that did not raise, and no other number has the same message; and
  in the case of the two events the message is the one with ``2 occurrences''.
\<close>

theorem cancel_deletes_and_counts:
  assumes auth: "authenticate_calendar cfg en w = (Returned (Some c, None), w1)"
    and build: "build_service en = None"
    and day: "strptime en (effective_date en (date self)) ''%Y-%m-%d'' = Inr date_obj"
    and found: "list_events en \<lparr>timeMin = replace_time date_obj 0 0 0,
            timeMax = replace_time date_obj 23 59 59, q = title self\<rparr> = Inr events"
    and matched: "matching_events en self (effective_date en (date self)) events = Inr matching"
    and some: "matching \<noteq> []"
  shows "run_cancel cfg en self w =
      (cancelled_message (title self) (effective_date en (date self))
         (length (filter (\<lambda>(j, e). delete_event en j (event_id e) = None) (enumerate 0 matching))),
       w1\<lparr>trace := trace w1 @ [Build_service c,
           List_events \<lparr>timeMin = replace_time date_obj 0 0 0,
             timeMax = replace_time date_obj 23 59 59, q = title self\<rparr>]
           @ map (\<lambda>e. Delete_event (event_id e)) matching\<rparr>)
    \<and> (\<forall>k. cancelled_message (title self) (effective_date en (date self)) k =
              fst (run_cancel cfg en self w)
          \<longrightarrow> k = length (filter (\<lambda>(j, e). delete_event en j (event_id e) = None)
                          (enumerate 0 matching)))
    \<and> (\<not> truthy_opt (time self)
          \<and> (\<exists>e1 e2. events = [e1, e2] \<and> delete_event en 0 (event_id e1) = None
                \<and> delete_event en 1 (event_id e2) = None)
        \<longrightarrow> matching = events
          \<and> fst (run_cancel cfg en self w) =
              ''Successfully cancelled 2 occurrences of '' @ quoted (str_opt (title self))
                @ '' on '' @ effective_date en (date self))"
proof -
  let ?d = "effective_date en (date self)"
  let ?n = "length (filter (\<lambda>(j, e). delete_event en j (event_id e) = None) (enumerate 0 matching))"
  have ev: "events \<noteq> []" using matched some matching_events_Nil [of en self ?d matching] by auto
  have api: "cancel_api en self ?d c w1 =
      (Inr (cancelled_message (title self) ?d ?n),
       w1\<lparr>trace := trace w1 @ [Build_service c,
           List_events \<lparr>timeMin = replace_time date_obj 0 0 0,
             timeMax = replace_time date_obj 23 59 59, q = title self\<rparr>]
           @ map (\<lambda>e. Delete_event (event_id e)) matching\<rparr>)"
    using cancel_api_found [OF build day found, of matching c w1] matched ev some by simp
  have run: "run_cancel cfg en self w =
      (cancelled_message (title self) ?d ?n,
       w1\<lparr>trace := trace w1 @ [Build_service c,
           List_events \<lparr>timeMin = replace_time date_obj 0 0 0,
             timeMax = replace_time date_obj 23 59 59, q = title self\<rparr>]
           @ map (\<lambda>e. Delete_event (event_id e)) matching\<rparr>)"
    by (rule run_cancel_authenticated [OF auth api])
  have inj: "\<forall>k. cancelled_message (title self) ?d k = fst (run_cancel cfg en self w) \<longrightarrow> k = ?n"
    using cancelled_message_inj [of "title self" ?d _ ?n] by (simp add: run)
  have two: "matching = events \<and> fst (run_cancel cfg en self w) =
        ''Successfully cancelled 2 occurrences of '' @ quoted (str_opt (title self)) @ '' on '' @ ?d"
    if nofilter: "\<not> truthy_opt (time self)"
      and both: "\<exists>e1 e2. events = [e1, e2] \<and> delete_event en 0 (event_id e1) = None
                \<and> delete_event en 1 (event_id e2) = None"
  proof -
    have m: "matching = events" using matched nofilter by (simp add: matching_events_def)
    from both obtain e1 e2 where e: "events = [e1, e2]" "delete_event en 0 (event_id e1) = None"
      "delete_event en 1 (event_id e2) = None" by blast
    have "?n = 2" using m e by simp
    moreover have "str_nat 2 = ''2''" by (simp add: str_nat.simps [of 2] digit_char_def)
    ultimately show ?thesis using m by (simp add: run cancelled_message_def)
  qed
  show ?thesis using run inj two by blast
qed

theorem cancel_deletes_and_counts_witness:
  "run_cancel (default_config ''2024-05-01'') sample_env (sample_query None)
      (sample_world (Some (Pickled stored_valid))) =
     (''Successfully cancelled 2 occurrences of 'Standup' on 2024-05-01'',
      \<lparr>token_file = Some (Pickled stored_valid), secrets_file = True,
       trace = [Attempt 0, Sleep (1/2), Load_token, Build_service stored_valid,
                List_events sample_request, Delete_event ''ev1'', Delete_event ''ev2'']\<rparr>)
   \<and> delete_event flaky_env 0 ''ev1'' = Some TimeoutError
   \<and> run_cancel (default_config ''2024-05-01'') flaky_env (sample_query None)
      (sample_world (Some (Pickled stored_valid))) =
     (''Successfully cancelled the meeting 'Standup' on 2024-05-01'',
      \<lparr>token_file = Some (Pickled stored_valid), secrets_file = True,
       trace = [Attempt 0, Sleep (1/2), Load_token, Build_service stored_valid,
                List_events sample_request, Delete_event ''ev1'', Delete_event ''ev2'']\<rparr>)"
proof -
  let ?cfg = "default_config ''2024-05-01''"
  let ?w = "sample_world (Some (Pickled stored_valid))"
  let ?w1 = "\<lparr>token_file = Some (Pickled stored_valid), secrets_file = True,
       trace = [Attempt 0, Sleep (1/2), Load_token]\<rparr>"
  have ne: "sample_events \<noteq> []" by (simp add: sample_events_def)
  have found1: "list_events sample_env \<lparr>timeMin = replace_time 63850118400 0 0 0,
            timeMax = replace_time 63850118400 23 59 59, q = title (sample_query None)\<rparr>
          = Inr sample_events"
    by (simp add: sample_env_answers)
  have found2: "list_events flaky_env \<lparr>timeMin = replace_time 63850118400 0 0 0,
            timeMax = replace_time 63850118400 23 59 59, q = title (sample_query None)\<rparr>
          = Inr sample_events"
    by (simp add: flaky_env_answers)
  have day1: "strptime sample_env (effective_date sample_env (date (sample_query None)))
      ''%Y-%m-%d'' = Inr 63850118400"
    by (simp add: sample_day sample_env_answers)
  have day2: "strptime flaky_env (effective_date flaky_env (date (sample_query None)))
      ''%Y-%m-%d'' = Inr 63850118400"
    by (simp add: sample_day flaky_env_answers)
  note t1 = cancel_deletes_and_counts [of ?cfg sample_env ?w stored_valid ?w1 "sample_query None"
      63850118400 sample_events sample_events,
      OF sample_authenticated sample_env_answers(1) day1 found1 sample_no_filter ne,
      THEN conjunct1]
  note t2 = cancel_deletes_and_counts [of ?cfg flaky_env ?w stored_valid ?w1 "sample_query None"
      63850118400 sample_events sample_events,
      OF sample_authenticated flaky_env_answers(1) day2 found2 sample_no_filter ne,
      THEN conjunct1]
  have two: "str_nat (Suc (Suc 0)) = ''2''"
    by (simp add: str_nat.simps [of "Suc (Suc 0)"] digit_char_def)
  show ?thesis
    using t1 t2
    by (simp add: sample_day sample_window sample_env_answers flaky_env_answers
        sample_events_def sample_request_def cancelled_message_def two quoted_def str_opt_def)
qed

text \<open>
  Claim C8, as amended: if a cancellation has a time, the search by title and date
  returns at least one event, and no event it returns starts at the hour and the minute
  of that time, then \<^verbatim>\<open>CancelCalendarEvent.run\<close> deletes nothing and returns the message
  that no events were found matching the title at that time on that date; if the search
  returns no event at all, it deletes nothing and returns the message that no events
  were found matching the title on that date, which does not name the time.

  In the model, once the authentication returned a credential, the date and the time
  were parsed and every event returned has a start that parses: the message is the one
  or the other, by whether the search returned an event, and the trace has no delete.
\<close>

theorem time_filter_without_match:
  assumes auth: "authenticate_calendar cfg en w = (Returned (Some c, None), w1)"
    and build: "build_service en = None"
    and day: "strptime en (effective_date en (date self)) ''%Y-%m-%d'' = Inr date_obj"
    and found: "list_events en \<lparr>timeMin = replace_time date_obj 0 0 0,
            timeMax = replace_time date_obj 23 59 59, q = title self\<rparr> = Inr events"
    and given: "truthy_opt (time self)"
    and target: "strptime en (effective_date en (date self) @ '' '' @ str_opt (time self))
            ''%Y-%m-%d %H:%M'' = Inr target_time"
    and none: "\<forall>e \<in> set events. \<exists>s t. event_start e = Some s
            \<and> fromisoformat en (replace_Z s) = Inr t
            \<and> \<not> (hour t = hour target_time \<and> minute t = minute target_time)"
  shows "fst (run_cancel cfg en self w) =
           (if events = [] then none_found_message (title self) (effective_date en (date self))
            else none_at_time_message (title self) (time self) (effective_date en (date self)))
       \<and> (\<forall>i. Delete_event i \<notin> set (new_effects w (snd (run_cancel cfg en self w))))"
proof -
  let ?d = "effective_date en (date self)"
  let ?req = "\<lparr>timeMin = replace_time date_obj 0 0 0,
             timeMax = replace_time date_obj 23 59 59, q = title self\<rparr>"
  have m: "matching_events en self ?d events = Inr []"
    using given target filter_by_time_none [OF none] by (simp add: matching_events_def)
  have api: "cancel_api en self ?d c w1 =
      (Inr (if events = [] then none_found_message (title self) ?d
            else none_at_time_message (title self) (time self) ?d),
       w1\<lparr>trace := trace w1 @ [Build_service c, List_events ?req]\<rparr>)"
    using cancel_api_found [OF build day found, of "[]" c w1] m by simp
  have run: "run_cancel cfg en self w =
      (if events = [] then none_found_message (title self) ?d
       else none_at_time_message (title self) (time self) ?d,
       w1\<lparr>trace := trace w1 @ [Build_service c, List_events ?req]\<rparr>)"
    by (rule run_cancel_authenticated [OF auth api])
  have tr1: "trace w1 = trace w @ new_effects w w1"
    using authenticate_calendar_trace [of cfg en w] auth by simp
  have na: "\<forall>e \<in> set (new_effects w w1). \<not> api_call e"
    using authenticate_calendar_no_api [of w cfg en] auth by simp
  have eff: "new_effects w (snd (run_cancel cfg en self w)) =
      new_effects w w1 @ [Build_service c, List_events ?req]"
    by (rule new_effects_append) (simp add: run tr1)
  have "\<forall>i. Delete_event i \<notin> set (new_effects w w1)" using na by auto
  then have kept: "\<forall>i. Delete_event i \<notin> set (new_effects w (snd (run_cancel cfg en self w)))"
    unfolding eff by simp
  have msg: "fst (run_cancel cfg en self w) =
      (if events = [] then none_found_message (title self) ?d
       else none_at_time_message (title self) (time self) ?d)"
    by (simp add: run)
  show ?thesis using msg kept by (rule conjI)
qed

theorem time_filter_without_match_witness:
  "truthy_opt (time (sample_query (Some ''14:30'')))
   \<and> list_events sample_env sample_request = Inr sample_events
   \<and> sample_events \<noteq> []
   \<and> fst (run_cancel (default_config ''2024-05-01'') sample_env (sample_query (Some ''14:30''))
        (sample_world (Some (Pickled stored_valid)))) =
       ''No events found matching 'Standup' at 14:30 on 2024-05-01''
   \<and> (\<forall>i. Delete_event i \<notin> set (new_effects (sample_world (Some (Pickled stored_valid)))
        (snd (run_cancel (default_config ''2024-05-01'') sample_env (sample_query (Some ''14:30''))
        (sample_world (Some (Pickled stored_valid)))))))"
proof -
  let ?cfg = "default_config ''2024-05-01''"
  let ?w = "sample_world (Some (Pickled stored_valid))"
  let ?w1 = "\<lparr>token_file = Some (Pickled stored_valid), secrets_file = True,
       trace = [Attempt 0, Sleep (1/2), Load_token]\<rparr>"
  let ?q = "sample_query (Some ''14:30'')"
  have given: "truthy_opt (time ?q)" by (simp add: sample_day truthy_opt_def truthy_def)
  have ne: "sample_events \<noteq> []" by (simp add: sample_events_def)
  have day: "strptime sample_env (effective_date sample_env (date ?q)) ''%Y-%m-%d''
      = Inr 63850118400"
    by (simp add: sample_day sample_env_answers)
  have found: "list_events sample_env \<lparr>timeMin = replace_time 63850118400 0 0 0,
            timeMax = replace_time 63850118400 23 59 59, q = title ?q\<rparr> = Inr sample_events"
    by (simp add: sample_env_answers)
  have target: "strptime sample_env (effective_date sample_env (date ?q) @ '' '' @ str_opt (time ?q))
            ''%Y-%m-%d %H:%M'' = Inr 63850170600"
    by (simp add: sample_day sample_env_answers str_opt_def)
  have none: "\<forall>e \<in> set sample_events. \<exists>s t. event_start e = Some s
            \<and> fromisoformat sample_env (replace_Z s) = Inr t
            \<and> \<not> (hour t = hour 63850170600 \<and> minute t = minute 63850170600)"
    by (simp add: sample_events_def event_start_def replace_Z_def sample_env_def hour_def minute_def)
  note t = time_filter_without_match [of ?cfg sample_env ?w stored_valid ?w1 ?q
      63850118400 sample_events 63850170600,
      OF sample_authenticated sample_env_answers(1) day found given target none]
  show ?thesis
    using given ne t
    by (simp add: sample_day sample_env_answers none_at_time_message_def quoted_def str_opt_def)
qed

text \<open>
  The claim as it is written covers the search that returns nothing, where no event has
  the time asked for: there the code answers before it looks at the time, with the
  message that does not name it.
\<close>

theorem time_filter_nothing_found_counterexample:
  "truthy_opt (time (sample_query (Some ''14:30'')))
   \<and> list_events empty_calendar_env sample_request = Inr []
   \<and> run_cancel (default_config ''2024-05-01'') empty_calendar_env (sample_query (Some ''14:30''))
        (sample_world (Some (Pickled stored_valid))) =
       (''No events found matching 'Standup' on 2024-05-01'',
        \<lparr>token_file = Some (Pickled stored_valid), secrets_file = True,
         trace = [Attempt 0, Sleep (1/2), Load_token, Build_service stored_valid,
                  List_events sample_request]\<rparr>)
   \<and> fst (run_cancel (default_config ''2024-05-01'') empty_calendar_env
        (sample_query (Some ''14:30'')) (sample_world (Some (Pickled stored_valid)))) \<noteq>
       ''No events found matching 'Standup' at 14:30 on 2024-05-01''"
proof -
  let ?q = "sample_query (Some ''14:30'')"
  let ?w1 = "\<lparr>token_file = Some (Pickled stored_valid), secrets_file = True,
       trace = [Attempt 0, Sleep (1/2), Load_token]\<rparr>"
  have given: "truthy_opt (time ?q)" by (simp add: sample_day truthy_opt_def truthy_def)
  have api: "cancel_api empty_calendar_env ?q ''2024-05-01'' stored_valid ?w1 =
      (Inr ''No events found matching 'Standup' on 2024-05-01'',
        \<lparr>token_file = Some (Pickled stored_valid), secrets_file = True,
         trace = [Attempt 0, Sleep (1/2), Load_token, Build_service stored_valid,
                  List_events sample_request]\<rparr>)"
    by (simp add: cancel_api_def empty_calendar_env_answers sample_day sample_window log_def
        sample_request_def none_found_message_def quoted_def str_opt_def)
  have run: "run_cancel (default_config ''2024-05-01'') empty_calendar_env ?q
        (sample_world (Some (Pickled stored_valid))) =
       (''No events found matching 'Standup' on 2024-05-01'',
        \<lparr>token_file = Some (Pickled stored_valid), secrets_file = True,
         trace = [Attempt 0, Sleep (1/2), Load_token, Build_service stored_valid,
                  List_events sample_request]\<rparr>)"
    using run_cancel_authenticated [of "default_config ''2024-05-01''" empty_calendar_env
        "sample_world (Some (Pickled stored_valid))" stored_valid ?w1 ?q,
        OF sample_authenticated] api
    by (simp add: sample_day)
  show ?thesis
    using given by (simp add: run empty_calendar_env_answers)
qed

end
